theory Spec2Isabelle
  imports Complex_Main
begin

section \<open>CineMatch AI: the Simulator component of src/index.tsx\<close>

text \<open>
  The Simulator is one React component holding seven state variables and three
  asynchronous functions (\<open>processScript\<close>, \<open>generateShotImage\<close>, \<open>generateVideo\<close>).
  Each asynchronous function is cut at its \<open>await\<close>s: the part that runs synchronously
  up to the first \<open>await\<close> is a \<open>_begin\<close> function, the part that runs when the awaited
  promise settles is a \<open>_resume\<close> function taking the outcome of the remote call.
  A rejected promise (a call that throws) is \<open>Inl\<close>, a fulfilled one is \<open>Inr\<close>.
  React applies queued state updates in the order they were issued, so every setter is
  applied to the current state at once. The constructor \<open>new GoogleGenAI(...)\<close> at the
  head of each function is taken to succeed.
\<close>

subsection \<open>Types (lines 5-22)\<close>

datatype error = RemoteError | SyntaxError | TypeError

text \<open>
  Interface \<open>Shot\<close> (lines 6-13). The two optional fields are \<open>None\<close> when the
  property is absent. A parsed shot is a \<open>Shot\<close> as well: the response schema (lines
  142-154) asks the model for the four text properties only, but nothing in the code checks
  the answer, so a parsed shot may carry either optional field.
\<close>

record Shot =
  sceneHeader :: string
  action :: string
  cameraAngle :: string
  visualDescription :: string
  imageUrl :: "string option"
  isLoadingImage :: "bool option"

text \<open>
  A casting suggestion as the schema declares it (line 137, no property required), and as
  the state holds it (line 21), with the portrait added by \<open>processScript\<close>.
\<close>

record CastSuggestion =
  name :: "string option"
  match :: "rat option"

record CastMember = CastSuggestion +
  image' :: string

text \<open>
  The analysis object. In the response \<open>casting\<close> may be missing
  (\<open>'c = CastSuggestion list option\<close>); in the state it is an array of cast members.
\<close>

record 'c AnalysisFields =
  score :: "string option"
  genre :: "string option"
  audience :: "string option"
  strengths :: "string list option"
  weaknesses :: "string list option"
  casting :: 'c

type_synonym AnalysisResult = "CastMember list AnalysisFields"

text \<open>
  The value of \<open>JSON.parse(textResponse.text || "{}")\<close> (line 160) when it is an object:
  neither top-level property is required by the schema, so each may be missing.
\<close>

record Parsed =
  analysis :: "CastSuggestion list option AnalysisFields option"
  shots :: "Shot list option"

datatype View = Input | Processing | Results

text \<open>The seven \<open>useState\<close> variables of the component (lines 85-91).\<close>

record Simulator =
  view :: View
  script :: string
  shots :: "Shot list"
  analysis :: "AnalysisResult option"
  videoUrl :: "string option"
  isVideoLoading :: bool
  processingStep :: nat

text \<open>What the image model returns, as far as lines 211-217 read it.\<close>

record InlineData =
  mimeType :: string
  data :: string

record Part =
  inlineData :: "InlineData option"

text \<open>\<open>response.candidates?.[0]?.content?.parts\<close>: \<open>None\<close> when the chain is undefined.\<close>

type_synonym ImageResponse = "Part list option"

text \<open>The operation object of the video model, as far as lines 263-268 read it.\<close>

record Operation =
  opDone :: bool
  videoUri :: "string option"

text \<open>
  Everything \<open>generateVideo\<close> awaits: the optional key check of line 247 (\<open>None\<close> when
  \<open>window.aistudio\<close> or its function is missing), the \<open>generateVideos\<close> call, the
  successive answers of \<open>getVideosOperation\<close>, and the fetch of the bytes (lines 271-273:
  \<open>Inl\<close> when \<open>fetch\<close> or \<open>blob\<close> rejects, else the object URL made from the blob).
\<close>

record VideoEnv =
  apiKey :: string
  hasSelectedApiKey :: "(error + bool) option"
  generateVideos :: "error + Operation"
  getVideosOperation :: "(error + Operation) list"
  fetchObjectUrl :: "error + string"

text \<open>What the component writes to the console and shows in alert boxes.\<close>

datatype effect =
    ConsoleError string
  | Alert string

text \<open>The calls and timers one run of \<open>generateVideo\<close> makes, the items of its trace.\<close>

datatype call =
    HasSelectedApiKey
  | GenerateVideos string
  | SetTimeout nat
  | GetVideosOperation
  | Fetch string

text \<open>An image request in flight: the index and the prompt its closure holds.\<close>

record ImageCall =
  callIndex :: nat
  prompt :: string

text \<open>
  The component together with its unsettled promises and, in \<open>effects\<close>, what it has
  written to the console and shown in alert boxes, in the order it happened. Remote calls
  and timers are not in that list: the calls in flight are \<open>textCalls\<close>, \<open>imageCalls\<close> and
  \<open>videoCalls\<close>, and the calls and timers of one run of \<open>generateVideo\<close> are the trace
  of that run (\<open>videoTry\<close> below), which lies between the moment the run begins and the
  moment it settles.
\<close>

record World =
  ui :: Simulator
  textCalls :: "string list"
  imageCalls :: "ImageCall list"
  videoCalls :: "string list"
  effects :: "effect list"

subsection \<open>Constants (lines 24-44)\<close>

definition newline :: string where
  "newline = [CHR 0x0A]"

definition DEFAULT_SCRIPT :: string where
  "DEFAULT_SCRIPT =
     ''INT. COFFEE SHOP - DAY'' @ newline @ newline @
     ''A rain-streaked window. Soft jazz plays.'' @ newline @ newline @
     ''JAMIE (30s, disheveled) stares at a cold cup of coffee.'' @ newline @ newline @
     ''He looks up as the door chime rings.'' @ newline @ newline @
     ''A WOMAN in a red trench coat enters, shaking off an umbrella.'' @ newline @
     ''She spots Jamie. Freezes.'' @ newline @ newline @
     ''Jamie stands up, knocking over his chair. The sound cuts through the jazz.''"

definition ACTOR_IMAGES :: "string list" where
  "ACTOR_IMAGES =
    [''https://images.unsplash.com/photo-1500648767791-00dcc994a43e?w=100&h=100&fit=crop'',
     ''https://images.unsplash.com/photo-1494790108377-be9c29b29330?w=100&h=100&fit=crop'',
     ''https://images.unsplash.com/photo-1507003211169-0a1dd7228f2d?w=100&h=100&fit=crop'',
     ''https://images.unsplash.com/photo-1438761681033-6461ffad8d80?w=100&h=100&fit=crop'']"

subsection \<open>JavaScript helpers\<close>

text \<open>\<open>text || "{}"\<close> (line 160).\<close>

definition orEmptyObject :: "string option \<Rightarrow> string" where
  "orEmptyObject text = (case text of None \<Rightarrow> ''{}'' | Some t \<Rightarrow> if t = [] then ''{}'' else t)"

text \<open>\<open>data.shots || []\<close> (lines 168 and 172).\<close>

definition orEmptyArray :: "'a list option \<Rightarrow> 'a list" where
  "orEmptyArray xs = (case xs of None \<Rightarrow> [] | Some ys \<Rightarrow> ys)"

subsection \<open>The state setters\<close>

definition setView :: "View \<Rightarrow> World \<Rightarrow> World" where
  "setView v w = w\<lparr>ui := (ui w)\<lparr>view := v\<rparr>\<rparr>"

definition setScript :: "string \<Rightarrow> World \<Rightarrow> World" where
  "setScript t w = w\<lparr>ui := (ui w)\<lparr>script := t\<rparr>\<rparr>"

definition setShots :: "(Shot list \<Rightarrow> Shot list) \<Rightarrow> World \<Rightarrow> World" where
  "setShots f w = w\<lparr>ui := (ui w)\<lparr>shots := f (shots (ui w))\<rparr>\<rparr>"

definition setAnalysis :: "AnalysisResult option \<Rightarrow> World \<Rightarrow> World" where
  "setAnalysis a w = w\<lparr>ui := (ui w)\<lparr>analysis := a\<rparr>\<rparr>"

definition setVideoUrl :: "string option \<Rightarrow> World \<Rightarrow> World" where
  "setVideoUrl u w = w\<lparr>ui := (ui w)\<lparr>videoUrl := u\<rparr>\<rparr>"

definition setIsVideoLoading :: "bool \<Rightarrow> World \<Rightarrow> World" where
  "setIsVideoLoading b w = w\<lparr>ui := (ui w)\<lparr>isVideoLoading := b\<rparr>\<rparr>"

definition setProcessingStep :: "nat \<Rightarrow> World \<Rightarrow> World" where
  "setProcessingStep n w = w\<lparr>ui := (ui w)\<lparr>processingStep := n\<rparr>\<rparr>"

definition emit :: "effect list \<Rightarrow> World \<Rightarrow> World" where
  "emit es w = w\<lparr>effects := effects w @ es\<rparr>"

subsection \<open>generateShotImage (lines 190-237)\<close>

text \<open>
  The three updaters passed to \<open>setShots\<close>. \<open>copy[index]\<close> is an object when the index is
  in range and undefined otherwise, so the guard \<open>if(copy[index])\<close> is the range test.
  The shot objects come from \<open>JSON.parse\<close>, one fresh object per array element, so writing
  a field of \<open>copy[index]\<close> changes no other element.
\<close>

definition markLoading :: "nat \<Rightarrow> Shot list \<Rightarrow> Shot list" where
  "markLoading index prev =
     (if index < length prev
      then prev[index := (prev ! index)\<lparr>isLoadingImage := Some True\<rparr>]
      else prev)"

definition storeImage :: "nat \<Rightarrow> string \<Rightarrow> Shot list \<Rightarrow> Shot list" where
  "storeImage index url prev =
     (if index < length prev
      then prev[index := (prev ! index)\<lparr>imageUrl := Some url, isLoadingImage := Some False\<rparr>]
      else prev)"

definition clearLoading :: "nat \<Rightarrow> Shot list \<Rightarrow> Shot list" where
  "clearLoading index prev =
     (if index < length prev
      then prev[index := (prev ! index)\<lparr>isLoadingImage := Some False\<rparr>]
      else prev)"

text \<open>Lines 210-218: the data URL of the first part with inline data, else the empty string.\<close>

fun firstInlineData :: "Part list \<Rightarrow> string" where
  "firstInlineData [] = []"
| "firstInlineData (part # parts) =
     (case inlineData part of
        Some d \<Rightarrow> ''data:'' @ mimeType d @ '';base64,'' @ data d
      | None \<Rightarrow> firstInlineData parts)"

definition extractImageUrl :: "ImageResponse \<Rightarrow> string" where
  "extractImageUrl response = (case response of None \<Rightarrow> [] | Some parts \<Rightarrow> firstInlineData parts)"

definition imagePrompt :: "Shot \<Rightarrow> string" where
  "imagePrompt shot =
     ''Cinematic storyboard sketch, loose charcoal style. '' @ visualDescription shot @
     ''. Angle: '' @ cameraAngle shot"

text \<open>Lines 190-208: mark the slot as loading and send the request.\<close>

definition generateShotImage_begin :: "Shot \<Rightarrow> nat \<Rightarrow> World \<Rightarrow> World" where
  "generateShotImage_begin shot index w =
     (let w1 = setShots (markLoading index) w
      in w1\<lparr>imageCalls := imageCalls w1 @ [\<lparr>callIndex = index, prompt = imagePrompt shot\<rparr>]\<rparr>)"

text \<open>Lines 209-236: the request has settled.\<close>

definition generateShotImage_resume :: "error + ImageResponse \<Rightarrow> nat \<Rightarrow> World \<Rightarrow> World" where
  "generateShotImage_resume settled index w =
     (case settled of
        Inr response \<Rightarrow> setShots (storeImage index (extractImageUrl response)) w
      | Inl err \<Rightarrow> setShots (clearLoading index) (emit [ConsoleError ''Image gen error''] w))"

subsection \<open>generateVideo (lines 239-282)\<close>

text \<open>
  The polling loop of lines 263-266 against the answers the remote side gives, in order.
  The result is \<open>None\<close> while the loop has not left (the answers so far are used up and
  none was done), \<open>Some (Inl e)\<close> when \<open>getVideosOperation\<close> threw, and
  \<open>Some (Inr operation)\<close> when the loop condition failed.
\<close>

fun polling :: "Operation \<Rightarrow> (error + Operation) list \<Rightarrow> call list \<times> (error + Operation) option" where
  "polling operation answers =
     (if opDone operation then ([], Some (Inr operation))
      else (case answers of
              [] \<Rightarrow> ([SetTimeout 5000], None)
            | Inl e # rest \<Rightarrow> ([SetTimeout 5000, GetVideosOperation], Some (Inl e))
            | Inr operation' # rest \<Rightarrow>
                (let (trace, r) = polling operation' rest
                 in (SetTimeout 5000 # GetVideosOperation # trace, r))))"

definition videoPrompt :: "string \<Rightarrow> string" where
  "videoPrompt scriptText =
     ''Cinematic movie scene based on this script: '' @ take 300 scriptText @ ''...''"

text \<open>
  The \<open>try\<close> block, lines 245-275. \<open>Some (Inr u)\<close>: the block completed, and \<open>u\<close> is the
  argument of \<open>setVideoUrl\<close> if it was called. \<open>if (videoUri)\<close> is false for undefined
  and for the empty string.
\<close>

definition videoTry :: "VideoEnv \<Rightarrow> string \<Rightarrow> call list \<times> (error + string option) option" where
  "videoTry env scriptText =
     (case hasSelectedApiKey env of
        Some (Inl e) \<Rightarrow> ([HasSelectedApiKey], Some (Inl e))
      | keyCheck \<Rightarrow>
          (let log0 = (if keyCheck = None then [] else [HasSelectedApiKey]) @
                      [GenerateVideos (videoPrompt scriptText)]
           in case generateVideos env of
                Inl e \<Rightarrow> (log0, Some (Inl e))
              | Inr operation \<Rightarrow>
                  (case polling operation (getVideosOperation env) of
                     (log1, None) \<Rightarrow> (log0 @ log1, None)
                   | (log1, Some (Inl e)) \<Rightarrow> (log0 @ log1, Some (Inl e))
                   | (log1, Some (Inr operation')) \<Rightarrow>
                       (case videoUri operation' of
                          None \<Rightarrow> (log0 @ log1, Some (Inr None))
                        | Some uri \<Rightarrow>
                            if uri = [] then (log0 @ log1, Some (Inr None))
                            else (let log2 = log0 @ log1 @ [Fetch (uri @ ''&key='' @ apiKey env)]
                                  in case fetchObjectUrl env of
                                       Inl e \<Rightarrow> (log2, Some (Inl e))
                                     | Inr videoObjectUrl \<Rightarrow>
                                         (log2, Some (Inr (Some videoObjectUrl))))))))"

text \<open>
  Lines 239-244: the flag is set and the run is in flight. Its calls (the key check when
  \<open>window.aistudio\<close> is there, else \<open>generateVideos\<close> at once) start here and are the
  head of the run's trace.
\<close>

definition generateVideo_begin :: "string \<Rightarrow> World \<Rightarrow> World" where
  "generateVideo_begin scriptText w =
     (let w1 = setIsVideoLoading True w
      in w1\<lparr>videoCalls := videoCalls w1 @ [scriptText]\<rparr>)"

text \<open>
  The end of the function, at the moment its last awaited call settles: \<open>setVideoUrl\<close>
  (line 274), \<open>catch\<close> (277-278), \<open>finally\<close> (279-281). \<open>None\<close>: the function has not
  come back.
\<close>

definition generateVideo_resume :: "VideoEnv \<Rightarrow> string \<Rightarrow> World \<Rightarrow> World option" where
  "generateVideo_resume env scriptText w =
     (case snd (videoTry env scriptText) of
        None \<Rightarrow> None
      | Some (Inr None) \<Rightarrow> Some (setIsVideoLoading False w)
      | Some (Inr (Some videoObjectUrl)) \<Rightarrow>
          Some (setIsVideoLoading False (setVideoUrl (Some videoObjectUrl) w))
      | Some (Inl err) \<Rightarrow>
          Some (setIsVideoLoading False (emit [ConsoleError ''Video generation failed''] w)))"

text \<open>The whole function when nothing else runs in between.\<close>

definition generateVideo :: "VideoEnv \<Rightarrow> string \<Rightarrow> World \<Rightarrow> World option" where
  "generateVideo env scriptText w = generateVideo_resume env scriptText (setIsVideoLoading True w)"

subsection \<open>processScript (lines 93-188)\<close>

text \<open>Lines 94-102, up to the \<open>await\<close> of the text call; the closure holds \<open>script\<close>.\<close>

definition processScript_begin :: "World \<Rightarrow> World" where
  "processScript_begin w =
     (let w1 = setProcessingStep 1 (setView Processing w)
      in w1\<lparr>textCalls := textCalls w1 @ [script (ui w)]\<rparr>)"

text \<open>The \<open>catch\<close> branch, lines 183-187.\<close>

definition processScript_catch :: "World \<Rightarrow> World" where
  "processScript_catch w =
     setView Input
       (emit [ConsoleError ''Error processing script:'',
              Alert ''Error processing script. Please try again.''] w)"

text \<open>Line 165: \<open>casting.map((c, i) => ({ ...c, image: ACTOR_IMAGES[i % ACTOR_IMAGES.length] }))\<close>.\<close>

definition withImages :: "CastSuggestion list \<Rightarrow> CastMember list" where
  "withImages cs =
     map (\<lambda>(i, c). \<lparr>name = name c, match = match c,
                    image' = ACTOR_IMAGES ! (i mod length ACTOR_IMAGES)\<rparr>)
         (enumerate 0 cs)"

text \<open>
  Lines 160-181, run when the text call has settled. \<open>JSON_parse\<close> is the library function,
  taken as a parameter: \<open>Inl\<close> when it throws. Reading \<open>casting\<close> of a missing
  \<open>data.analysis\<close>, calling \<open>map\<close> on a missing \<open>casting\<close> and calling \<open>forEach\<close> on a
  missing \<open>data.shots\<close> each throw a TypeError, the last one after four setters have run.
  A parsed value that is not an object ends in the same branch: \<open>null\<close> throws when
  \<open>analysis\<close> is read, a number or a string has no \<open>analysis\<close>.
\<close>

definition processScript_resume ::
  "(string \<Rightarrow> error + Parsed) \<Rightarrow> error + string option \<Rightarrow> string \<Rightarrow> World \<Rightarrow> World" where
  "processScript_resume JSON_parse settled scriptText w =
     (case settled of
        Inl err \<Rightarrow> processScript_catch w
      | Inr text \<Rightarrow>
          (case JSON_parse (orEmptyObject text) of
             Inl err \<Rightarrow> processScript_catch w
           | Inr d \<Rightarrow>
               (case Parsed.analysis d of
                  None \<Rightarrow> processScript_catch w
                | Some a \<Rightarrow>
                    (case casting a of
                       None \<Rightarrow> processScript_catch w
                     | Some cs \<Rightarrow>
                         (let w1 = setAnalysis
                                     (Some \<lparr>score = score a, genre = genre a, audience = audience a,
                                            strengths = strengths a, weaknesses = weaknesses a,
                                            casting = withImages cs\<rparr>) w;
                              w2 = setShots (\<lambda>prev. orEmptyArray (Parsed.shots d)) w1;
                              w3 = setProcessingStep 2 w2;
                              w4 = setView Results w3
                          in case Parsed.shots d of
                               None \<Rightarrow> processScript_catch w4
                             | Some shs \<Rightarrow>
                                 generateVideo_begin scriptText
                                   (fold (\<lambda>(index, shot). generateShotImage_begin shot index)
                                         (enumerate 0 shs) w4))))))"

subsection \<open>The component as a transition system\<close>

definition initial :: World where
  "initial =
     \<lparr>ui = \<lparr>view = Input, script = DEFAULT_SCRIPT, shots = [], analysis = None,
             videoUrl = None, isVideoLoading = False, processingStep = 0\<rparr>,
      textCalls = [], imageCalls = [], videoCalls = [], effects = []\<rparr>"

text \<open>
  What can happen: the two buttons (lines 307 and 338, each present only in its view), the
  textarea (line 302), and the settling of a call in flight, chosen by its position.
\<close>

datatype event =
    Analizar
  | AnalizarOtro
  | Edit string
  | TextSettled "error + string option"
  | ImageSettled nat "error + ImageResponse"
  | VideoSettled nat VideoEnv

definition without :: "nat \<Rightarrow> 'a list \<Rightarrow> 'a list" where
  "without k xs = take k xs @ drop (Suc k) xs"

definition step :: "(string \<Rightarrow> error + Parsed) \<Rightarrow> event \<Rightarrow> World \<Rightarrow> World option" where
  "step JSON_parse ev w =
     (case ev of
        Analizar \<Rightarrow> if view (ui w) = Input then Some (processScript_begin w) else None
      | AnalizarOtro \<Rightarrow>
          if view (ui w) = Results \<and> analysis (ui w) \<noteq> None then Some (setView Input w) else None
      | Edit t \<Rightarrow> if view (ui w) = Input then Some (setScript t w) else None
      | TextSettled settled \<Rightarrow>
          (case textCalls w of
             [] \<Rightarrow> None
           | scriptText # rest \<Rightarrow>
               Some (processScript_resume JSON_parse settled scriptText (w\<lparr>textCalls := rest\<rparr>)))
      | ImageSettled k settled \<Rightarrow>
          if k < length (imageCalls w)
          then Some (generateShotImage_resume settled (callIndex (imageCalls w ! k))
                       (w\<lparr>imageCalls := without k (imageCalls w)\<rparr>))
          else None
      | VideoSettled k env \<Rightarrow>
          if k < length (videoCalls w)
          then generateVideo_resume env (videoCalls w ! k) (w\<lparr>videoCalls := without k (videoCalls w)\<rparr>)
          else None)"

fun run :: "(string \<Rightarrow> error + Parsed) \<Rightarrow> event list \<Rightarrow> World \<Rightarrow> World option" where
  "run JSON_parse [] w = Some w"
| "run JSON_parse (ev # evs) w =
     (case step JSON_parse ev w of None \<Rightarrow> None | Some w' \<Rightarrow> run JSON_parse evs w')"

subsection \<open>What the results view shows (lines 333-429)\<close>

datatype VideoSlot = VideoElement string | SpinnerPlaceholder string

text \<open>Lines 382-394.\<close>

definition videoSlot :: "Simulator \<Rightarrow> VideoSlot" where
  "videoSlot s =
     (case videoUrl s of
        Some u \<Rightarrow> if u \<noteq> [] then VideoElement u
                  else SpinnerPlaceholder (if isVideoLoading s then ''Generando video con Veo...''
                                           else ''Esperando inicio...'')
      | None \<Rightarrow> SpinnerPlaceholder (if isVideoLoading s then ''Generando video con Veo...''
                                    else ''Esperando inicio...''))"

subsection \<open>The four states of a shot\<close>


definition loading :: "Shot \<Rightarrow> bool" where
  "loading sh \<longleftrightarrow> isLoadingImage sh = Some True \<and> imageUrl sh = None"


definition failed :: "Shot \<Rightarrow> bool" where
  "failed sh \<longleftrightarrow> isLoadingImage sh = Some False \<and> imageUrl sh = None"



subsection \<open>Reading the effects and the calls\<close>

text \<open>How many times \<open>getVideosOperation\<close> was called.\<close>

definition statusChecks :: "call list \<Rightarrow> nat" where
  "statusChecks trace = length (filter (\<lambda>e. e = GetVideosOperation) trace)"

text \<open>
  The events that store a video URL: a run of \<open>generateVideo\<close> settling with a fetched
  video. (What the run's \<open>try\<close> block ends with does not depend on the script text.)
\<close>

fun storesVideo :: "event \<Rightarrow> bool" where
  "storesVideo (VideoSettled k env) =
     (case snd (videoTry env []) of Some (Inr (Some videoObjectUrl)) \<Rightarrow> True | _ \<Rightarrow> False)"
| "storesVideo ev = False"

text \<open>The image requests that \<open>forEach\<close> (lines 176-178) sends for an array of shots.\<close>

definition issuedCalls :: "Shot list \<Rightarrow> ImageCall list" where
  "issuedCalls shs =
     map (\<lambda>(index, shot). \<lparr>callIndex = index, prompt = imagePrompt shot\<rparr>) (enumerate 0 shs)"

definition imageUrls :: "World \<Rightarrow> string option list" where
  "imageUrls w = map imageUrl (shots (ui w))"



definition shownVideo :: "World \<Rightarrow> VideoSlot" where
  "shownVideo w = videoSlot (ui w)"

subsection \<open>Example data\<close>

definition exampleCasting :: "CastSuggestion list" where
  "exampleCasting =
     [\<lparr>name = Some ''Ana'', match = Some 95\<rparr>, \<lparr>name = Some ''Luis'', match = Some 90\<rparr>,
      \<lparr>name = Some ''Eva'', match = Some 85\<rparr>, \<lparr>name = Some ''Joan'', match = Some 80\<rparr>,
      \<lparr>name = Some ''Marta'', match = None\<rparr>]"

definition exampleAnalysis :: "CastSuggestion list option AnalysisFields" where
  "exampleAnalysis =
     \<lparr>score = Some ''8'', genre = Some ''Drama'', audience = Some ''Adults'',
      strengths = Some [''Mood''], weaknesses = Some [], casting = Some exampleCasting\<rparr>"

definition exampleShots :: "Shot list" where
  "exampleShots =
     [\<lparr>sceneHeader = ''INT. COFFEE SHOP - DAY'', action = ''Jamie stares at his coffee'',
       cameraAngle = ''Close-up'', visualDescription = ''A cold cup of coffee'',
       imageUrl = None, isLoadingImage = None\<rparr>,
      \<lparr>sceneHeader = ''INT. COFFEE SHOP - DAY'', action = ''A woman enters'',
       cameraAngle = ''Wide'', visualDescription = ''A red trench coat at the door'',
       imageUrl = None, isLoadingImage = None\<rparr>]"

definition exampleData :: Parsed where
  "exampleData = \<lparr>Parsed.analysis = Some exampleAnalysis, Parsed.shots = Some exampleShots\<rparr>"

definition parkShots :: "Shot list" where
  "parkShots =
     [\<lparr>sceneHeader = ''EXT. PARK - NIGHT'', action = ''A dog runs'',
       cameraAngle = ''Tracking'', visualDescription = ''A dog under a street lamp'',
       imageUrl = None, isLoadingImage = None\<rparr>]"



text \<open>
  A stand-in for \<open>JSON.parse\<close>: the empty object, objects with one part missing, a text
  that is not JSON, the answer for a second script, and any other text read as the
  example object.
\<close>

definition exampleParse :: "string \<Rightarrow> error + Parsed" where
  "exampleParse t =
     (if t = ''{}'' then Inr \<lparr>Parsed.analysis = None, Parsed.shots = None\<rparr>
      else if t = ''no shots'' then Inr \<lparr>Parsed.analysis = Some exampleAnalysis, Parsed.shots = None\<rparr>
      else if t = ''no casting''
        then Inr \<lparr>Parsed.analysis = Some (exampleAnalysis\<lparr>casting := None\<rparr>),
                  Parsed.shots = Some exampleShots\<rparr>
      else if t = ''not json'' then Inl SyntaxError
      else if t = ''park''
        then Inr \<lparr>Parsed.analysis = Some exampleAnalysis, Parsed.shots = Some parkShots\<rparr>
      else Inr exampleData)"

definition exampleImage :: ImageResponse where
  "exampleImage = Some [\<lparr>inlineData = None\<rparr>,
                        \<lparr>inlineData = Some \<lparr>mimeType = ''image/png'', data = ''AAAA''\<rparr>\<rparr>]"

definition examplePending :: Operation where
  "examplePending = \<lparr>opDone = False, videoUri = None\<rparr>"

definition exampleDone :: Operation where
  "exampleDone = \<lparr>opDone = True, videoUri = Some ''https://video.example/v?alt=media''\<rparr>"

definition exampleVideoEnv :: VideoEnv where
  "exampleVideoEnv =
     \<lparr>apiKey = ''KEY'', hasSelectedApiKey = None, generateVideos = Inr examplePending,
      getVideosOperation = [Inr examplePending, Inr exampleDone],
      fetchObjectUrl = Inr ''blob:1''\<rparr>"

definition failingVideoEnv :: VideoEnv where
  "failingVideoEnv = exampleVideoEnv\<lparr>generateVideos := Inl RemoteError\<rparr>"

text \<open>The component after a first script has been analysed, both images still in flight.\<close>

definition exampleResults :: World where
  "exampleResults = processScript_resume exampleParse (Inr (Some ''ok'')) DEFAULT_SCRIPT initial"

text \<open>
  A restart: a first script is analysed, the user goes back to the input view, types a
  second script and has it analysed while the two image requests and the video run of the
  first are still in flight.
\<close>

definition exampleRestart :: "event list" where
  "exampleRestart =
     [Analizar, TextSettled (Inr (Some ''ok'')), AnalizarOtro, Edit ''park'',
      Analizar, TextSettled (Inr (Some ''park''))]"

section \<open>Properties\<close>

declare polling.simps [simp del]

subsection \<open>What each function does to the component state and to the calls\<close>

lemmas setter_defs = setView_def setScript_def setShots_def setAnalysis_def setVideoUrl_def
  setIsVideoLoading_def setProcessingStep_def emit_def

lemma ui_setView: "ui (setView v w) = (ui w)\<lparr>view := v\<rparr>"
  by (simp add: setView_def)

lemma ui_setScript: "ui (setScript t w) = (ui w)\<lparr>script := t\<rparr>"
  by (simp add: setScript_def)

lemma ui_setShots: "ui (setShots f w) = (ui w)\<lparr>shots := f (shots (ui w))\<rparr>"
  by (simp add: setShots_def)

lemma ui_setAnalysis: "ui (setAnalysis a w) = (ui w)\<lparr>analysis := a\<rparr>"
  by (simp add: setAnalysis_def)

lemma ui_setVideoUrl: "ui (setVideoUrl u w) = (ui w)\<lparr>videoUrl := u\<rparr>"
  by (simp add: setVideoUrl_def)

lemma ui_setIsVideoLoading: "ui (setIsVideoLoading b w) = (ui w)\<lparr>isVideoLoading := b\<rparr>"
  by (simp add: setIsVideoLoading_def)

lemma ui_setProcessingStep: "ui (setProcessingStep n w) = (ui w)\<lparr>processingStep := n\<rparr>"
  by (simp add: setProcessingStep_def)

lemma ui_emit: "ui (emit es w) = ui w"
  by (simp add: emit_def)

lemmas ui_setters = ui_setView ui_setScript ui_setShots ui_setAnalysis ui_setVideoUrl
  ui_setIsVideoLoading ui_setProcessingStep ui_emit

lemma calls_setters:
  "textCalls (setView v w) = textCalls w"
  "textCalls (setScript t w) = textCalls w"
  "textCalls (setShots f w) = textCalls w"
  "textCalls (setAnalysis a w) = textCalls w"
  "textCalls (setVideoUrl u w) = textCalls w"
  "textCalls (setIsVideoLoading b w) = textCalls w"
  "textCalls (setProcessingStep n w) = textCalls w"
  "textCalls (emit es w) = textCalls w"
  "imageCalls (setView v w) = imageCalls w"
  "imageCalls (setScript t w) = imageCalls w"
  "imageCalls (setShots f w) = imageCalls w"
  "imageCalls (setAnalysis a w) = imageCalls w"
  "imageCalls (setVideoUrl u w) = imageCalls w"
  "imageCalls (setIsVideoLoading b w) = imageCalls w"
  "imageCalls (setProcessingStep n w) = imageCalls w"
  "imageCalls (emit es w) = imageCalls w"
  "videoCalls (setView v w) = videoCalls w"
  "videoCalls (setScript t w) = videoCalls w"
  "videoCalls (setShots f w) = videoCalls w"
  "videoCalls (setAnalysis a w) = videoCalls w"
  "videoCalls (setVideoUrl u w) = videoCalls w"
  "videoCalls (setIsVideoLoading b w) = videoCalls w"
  "videoCalls (setProcessingStep n w) = videoCalls w"
  "videoCalls (emit es w) = videoCalls w"
  "effects (setView v w) = effects w"
  "effects (setScript t w) = effects w"
  "effects (setShots f w) = effects w"
  "effects (setAnalysis a w) = effects w"
  "effects (setVideoUrl u w) = effects w"
  "effects (setIsVideoLoading b w) = effects w"
  "effects (setProcessingStep n w) = effects w"
  "effects (emit es w) = effects w @ es"
  by (simp_all add: setter_defs)

lemma ui_catch: "ui (processScript_catch w) = (ui w)\<lparr>view := Input\<rparr>"
  by (simp add: processScript_catch_def ui_setters)

lemma catch_effects:
  "effects (processScript_catch w) =
   effects w @ [ConsoleError ''Error processing script:'',
                Alert ''Error processing script. Please try again.'']"
  by (simp add: processScript_catch_def calls_setters)

lemma calls_catch:
  "textCalls (processScript_catch w) = textCalls w"
  "imageCalls (processScript_catch w) = imageCalls w"
  "videoCalls (processScript_catch w) = videoCalls w"
  by (simp_all add: processScript_catch_def calls_setters)

lemma ui_image_begin:
  "ui (generateShotImage_begin shot index w) = (ui w)\<lparr>shots := markLoading index (shots (ui w))\<rparr>"
  by (simp add: generateShotImage_begin_def Let_def ui_setters)

lemma calls_image_begin:
  "textCalls (generateShotImage_begin shot index w) = textCalls w"
  "imageCalls (generateShotImage_begin shot index w) =
     imageCalls w @ [\<lparr>callIndex = index, prompt = imagePrompt shot\<rparr>]"
  "videoCalls (generateShotImage_begin shot index w) = videoCalls w"
  "effects (generateShotImage_begin shot index w) = effects w"
  by (simp_all add: generateShotImage_begin_def Let_def calls_setters)

lemma ui_video_begin: "ui (generateVideo_begin t w) = (ui w)\<lparr>isVideoLoading := True\<rparr>"
  by (simp add: generateVideo_begin_def Let_def ui_setters)

lemma calls_video_begin:
  "textCalls (generateVideo_begin t w) = textCalls w"
  "imageCalls (generateVideo_begin t w) = imageCalls w"
  "videoCalls (generateVideo_begin t w) = videoCalls w @ [t]"
  "effects (generateVideo_begin t w) = effects w"
  by (simp_all add: generateVideo_begin_def Let_def calls_setters)

lemma ui_forEach:
  "ui (fold (\<lambda>(index, shot). generateShotImage_begin shot index) xs w) =
   (ui w)\<lparr>shots := fold (\<lambda>(index, shot). markLoading index) xs (shots (ui w))\<rparr>"
  by (induction xs arbitrary: w) (auto simp: ui_image_begin)

lemma calls_forEach:
  "textCalls (fold (\<lambda>(index, shot). generateShotImage_begin shot index) xs w) = textCalls w"
  "imageCalls (fold (\<lambda>(index, shot). generateShotImage_begin shot index) xs w) =
     imageCalls w @ map (\<lambda>(index, shot). \<lparr>callIndex = index, prompt = imagePrompt shot\<rparr>) xs"
  "videoCalls (fold (\<lambda>(index, shot). generateShotImage_begin shot index) xs w) = videoCalls w"
  "effects (fold (\<lambda>(index, shot). generateShotImage_begin shot index) xs w) = effects w"
  by (induction xs arbitrary: w) (auto simp: calls_image_begin)

lemma image_resume_ui:
  "ui (generateShotImage_resume settled index w) =
   (ui w)\<lparr>shots := (case settled of Inr response \<Rightarrow> storeImage index (extractImageUrl response)
                                  | Inl err \<Rightarrow> clearLoading index) (shots (ui w))\<rparr>"
  by (simp add: generateShotImage_resume_def ui_setters split: sum.split)

lemma calls_image_resume:
  "textCalls (generateShotImage_resume settled index w) = textCalls w"
  "imageCalls (generateShotImage_resume settled index w) = imageCalls w"
  "videoCalls (generateShotImage_resume settled index w) = videoCalls w"
  "effects (generateShotImage_resume settled index w) =
     effects w @ (case settled of Inr response \<Rightarrow> [] | Inl err \<Rightarrow> [ConsoleError ''Image gen error''])"
  by (simp_all add: generateShotImage_resume_def calls_setters split: sum.split)

text \<open>The text call has settled with an object that has all its parts.\<close>

lemma resume_ok:
  assumes "JSON_parse (orEmptyObject text) = Inr d" and "Parsed.analysis d = Some a"
    and "casting a = Some cs" and "Parsed.shots d = Some shs"
  shows "ui (processScript_resume JSON_parse (Inr text) scriptText w) =
           (ui w)\<lparr>analysis := Some \<lparr>score = score a, genre = genre a, audience = audience a,
                                      strengths = strengths a, weaknesses = weaknesses a,
                                      casting = withImages cs\<rparr>,
                    shots := fold (\<lambda>(index, shot). markLoading index) (enumerate 0 shs) shs,
                    processingStep := 2, view := Results, isVideoLoading := True\<rparr>"
    and "imageCalls (processScript_resume JSON_parse (Inr text) scriptText w) =
           imageCalls w @ issuedCalls shs"
    and "videoCalls (processScript_resume JSON_parse (Inr text) scriptText w) =
           videoCalls w @ [scriptText]"
    and "textCalls (processScript_resume JSON_parse (Inr text) scriptText w) = textCalls w"
    and "effects (processScript_resume JSON_parse (Inr text) scriptText w) = effects w"
  using assms
  by (simp_all add: processScript_resume_def Let_def ui_setters ui_forEach ui_video_begin
      calls_setters calls_forEach calls_video_begin orEmptyArray_def issuedCalls_def)

lemma step_simps:
  "step P Analizar w = (if view (ui w) = Input then Some (processScript_begin w) else None)"
  "step P AnalizarOtro w =
     (if view (ui w) = Results \<and> analysis (ui w) \<noteq> None then Some (setView Input w) else None)"
  "step P (Edit t) w = (if view (ui w) = Input then Some (setScript t w) else None)"
  "step P (TextSettled settled) w =
     (case textCalls w of
        [] \<Rightarrow> None
      | scriptText # rest \<Rightarrow> Some (processScript_resume P settled scriptText (w\<lparr>textCalls := rest\<rparr>)))"
  "step P (ImageSettled k imageSettled) w =
     (if k < length (imageCalls w)
      then Some (generateShotImage_resume imageSettled (callIndex (imageCalls w ! k))
                   (w\<lparr>imageCalls := without k (imageCalls w)\<rparr>))
      else None)"
  "step P (VideoSettled k env) w =
     (if k < length (videoCalls w)
      then generateVideo_resume env (videoCalls w ! k) (w\<lparr>videoCalls := without k (videoCalls w)\<rparr>)
      else None)"
  by (simp_all add: step_def)

subsection \<open>Casting portraits\<close>

lemma analysis_resume:
  assumes "JSON_parse (orEmptyObject text) = Inr d" and "Parsed.analysis d = Some a"
    and "casting a = Some cs"
  shows "analysis (ui (processScript_resume JSON_parse (Inr text) scriptText w)) =
         Some \<lparr>score = score a, genre = genre a, audience = audience a,
               strengths = strengths a, weaknesses = weaknesses a, casting = withImages cs\<rparr>"
  using assms
  by (simp add: processScript_resume_def Let_def ui_setters ui_catch ui_forEach ui_video_begin
      split: option.split)

lemma length_withImages: "length (withImages cs) = length cs"
  by (simp add: withImages_def)

lemma nth_withImages:
  "i < length cs \<Longrightarrow>
   withImages cs ! i = \<lparr>name = name (cs ! i), match = match (cs ! i),
                        image' = ACTOR_IMAGES ! (i mod length ACTOR_IMAGES)\<rparr>"
  by (simp add: withImages_def nth_enumerate_eq)

lemma length_ACTOR_IMAGES: "length ACTOR_IMAGES = 4"
  by (simp add: ACTOR_IMAGES_def)

text \<open>
  C7. Whenever the parsed response has an analysis with a casting array, the analysis put
  into the state has one cast member per suggestion, in the same order and with the same
  name and match, and the member at position \<open>i\<close> (from 0) carries the portrait
  \<open>ACTOR_IMAGES[i mod 4]\<close>.
\<close>

theorem casting_images_cycle:
  assumes "JSON_parse (orEmptyObject text) = Inr d" and "Parsed.analysis d = Some a"
    and "casting a = Some cs" and "i < length cs"
  shows "\<exists>r. analysis (ui (processScript_resume JSON_parse (Inr text) scriptText w)) = Some r \<and>
             length (casting r) = length cs \<and>
             image' (casting r ! i) = ACTOR_IMAGES ! (i mod 4) \<and>
             name (casting r ! i) = name (cs ! i) \<and>
             match (casting r ! i) = match (cs ! i)"
  using assms analysis_resume [of JSON_parse "text" d a cs scriptText w]
  by (simp add: length_withImages nth_withImages length_ACTOR_IMAGES)

theorem casting_images_cycle_witness:
  "exampleParse (orEmptyObject (Some ''ok'')) = Inr exampleData \<and>
   Parsed.analysis exampleData = Some exampleAnalysis \<and>
   casting exampleAnalysis = Some exampleCasting \<and>
   (4::nat) < length exampleCasting \<and>
   (\<exists>r. analysis (ui (processScript_resume exampleParse (Inr (Some ''ok'')) DEFAULT_SCRIPT initial))
          = Some r \<and>
        length (casting r) = length exampleCasting \<and>
        image' (casting r ! 4) =
          ''https://images.unsplash.com/photo-1500648767791-00dcc994a43e?w=100&h=100&fit=crop'' \<and>
        name (casting r ! 4) = Some ''Marta'' \<and>
        match (casting r ! 4) = None)"
  using casting_images_cycle [of exampleParse "Some ''ok''" exampleData exampleAnalysis
      exampleCasting 4 DEFAULT_SCRIPT initial]
  by (simp add: orEmptyObject_def exampleParse_def exampleData_def exampleAnalysis_def
      exampleCasting_def ACTOR_IMAGES_def)

subsection \<open>Failures of the text analysis\<close>

text \<open>
  C5. When the text call throws, \<open>processScript\<close> writes to the console, shows the alert
  and sets the view to the input view; nothing else in the component changes and no image
  or video call is started.
\<close>

theorem text_failure_alert_and_input:
  "ui (processScript_resume JSON_parse (Inl err) scriptText w) = (ui w)\<lparr>view := Input\<rparr> \<and>
   effects (processScript_resume JSON_parse (Inl err) scriptText w) =
     effects w @ [ConsoleError ''Error processing script:'',
                  Alert ''Error processing script. Please try again.''] \<and>
   imageCalls (processScript_resume JSON_parse (Inl err) scriptText w) = imageCalls w \<and>
   videoCalls (processScript_resume JSON_parse (Inl err) scriptText w) = videoCalls w"
  by (simp add: processScript_resume_def ui_catch catch_effects calls_catch)

theorem text_failure_alert_and_input_witness:
  "run exampleParse [Analizar, TextSettled (Inl RemoteError)] initial =
     Some (initial\<lparr>ui := (ui initial)\<lparr>processingStep := 1\<rparr>,
                   effects := [ConsoleError ''Error processing script:'',
                               Alert ''Error processing script. Please try again.'']\<rparr>)"
proof -
  let ?w = "(processScript_begin initial)\<lparr>textCalls := []\<rparr>"
  have "run exampleParse [Analizar, TextSettled (Inl RemoteError)] initial =
        Some (processScript_resume exampleParse (Inl RemoteError) DEFAULT_SCRIPT ?w)"
    by (simp add: step_simps initial_def processScript_begin_def Let_def setter_defs)
  moreover have "processScript_resume exampleParse (Inl RemoteError) DEFAULT_SCRIPT ?w =
      initial\<lparr>ui := (ui initial)\<lparr>processingStep := 1\<rparr>,
              effects := [ConsoleError ''Error processing script:'',
                          Alert ''Error processing script. Please try again.'']\<rparr>"
    using text_failure_alert_and_input [of exampleParse RemoteError DEFAULT_SCRIPT ?w]
    by (intro World.equality)
       (simp_all add: initial_def processScript_begin_def Let_def setter_defs
          processScript_resume_def processScript_catch_def)
  ultimately show ?thesis by simp
qed

text \<open>
  C10. When the parsed response is an object without \<open>analysis\<close>, or with an analysis
  without \<open>casting\<close>, or without \<open>shots\<close>, the \<open>catch\<close> branch runs: the console
  and the alert get their messages, the view ends as the input view, and no image or
  video call is started.
\<close>

theorem missing_parts_reach_catch:
  assumes "JSON_parse (orEmptyObject text) = Inr d"
    and "Parsed.analysis d = None \<or> (\<exists>a. Parsed.analysis d = Some a \<and> casting a = None) \<or>
         Parsed.shots d = None"
  shows "view (ui (processScript_resume JSON_parse (Inr text) scriptText w)) = Input \<and>
         effects (processScript_resume JSON_parse (Inr text) scriptText w) =
           effects w @ [ConsoleError ''Error processing script:'',
                        Alert ''Error processing script. Please try again.''] \<and>
         imageCalls (processScript_resume JSON_parse (Inr text) scriptText w) = imageCalls w \<and>
         videoCalls (processScript_resume JSON_parse (Inr text) scriptText w) = videoCalls w"
proof -
  consider (no_analysis) "Parsed.analysis d = None"
    | (no_casting) a where "Parsed.analysis d = Some a" "casting a = None"
    | (no_shots) a cs where "Parsed.analysis d = Some a" "casting a = Some cs" "Parsed.shots d = None"
    using assms(2) by (cases "Parsed.analysis d"; cases "casting (the (Parsed.analysis d))") auto
  then show ?thesis
  proof cases
    case no_analysis
    with assms(1) show ?thesis
      by (simp add: processScript_resume_def ui_catch catch_effects calls_catch)
  next
    case no_casting
    with assms(1) show ?thesis
      by (simp add: processScript_resume_def ui_catch catch_effects calls_catch)
  next
    case no_shots
    with assms(1) show ?thesis
      by (simp add: processScript_resume_def Let_def ui_catch catch_effects calls_catch
          calls_setters)
  qed
qed

theorem missing_parts_reach_catch_witness:
  "view (ui (processScript_resume exampleParse (Inr None) DEFAULT_SCRIPT initial)) = Input \<and>
   view (ui (processScript_resume exampleParse (Inr (Some ''no casting'')) DEFAULT_SCRIPT initial))
     = Input \<and>
   view (ui (processScript_resume exampleParse (Inr (Some ''no shots'')) DEFAULT_SCRIPT initial))
     = Input \<and>
   effects (processScript_resume exampleParse (Inr (Some ''no shots'')) DEFAULT_SCRIPT initial) =
     [ConsoleError ''Error processing script:'', Alert ''Error processing script. Please try again.'']"
  using missing_parts_reach_catch [of exampleParse None
      "\<lparr>Parsed.analysis = None, Parsed.shots = None\<rparr>" DEFAULT_SCRIPT initial]
    missing_parts_reach_catch [of exampleParse "Some ''no casting''"
      "\<lparr>Parsed.analysis = Some (exampleAnalysis\<lparr>casting := None\<rparr>),
        Parsed.shots = Some exampleShots\<rparr>"
      DEFAULT_SCRIPT initial]
    missing_parts_reach_catch [of exampleParse "Some ''no shots''"
      "\<lparr>Parsed.analysis = Some exampleAnalysis, Parsed.shots = None\<rparr>" DEFAULT_SCRIPT initial]
  by (simp add: orEmptyObject_def exampleParse_def initial_def)

subsection \<open>The polling loop\<close>

lemma polling_done: "opDone operation \<Longrightarrow> polling operation answers = ([], Some (Inr operation))"
  by (simp add: polling.simps)

lemma polling_Nil: "\<not> opDone operation \<Longrightarrow> polling operation [] = ([SetTimeout 5000], None)"
  by (simp add: polling.simps)

lemma polling_throw:
  "\<not> opDone operation \<Longrightarrow>
   polling operation (Inl e # rest) = ([SetTimeout 5000, GetVideosOperation], Some (Inl e))"
  by (simp add: polling.simps)

lemma polling_next:
  "\<not> opDone operation \<Longrightarrow>
   polling operation (Inr operation' # rest) =
     (SetTimeout 5000 # GetVideosOperation # fst (polling operation' rest),
      snd (polling operation' rest))"
  by (simp add: polling.simps split_beta)

lemmas polling_cases = polling_done polling_Nil polling_throw polling_next

lemma polling_trace:
  "fst (polling operation answers) =
     concat (replicate (statusChecks (fst (polling operation answers)))
               [SetTimeout 5000, GetVideosOperation]) @
     (if snd (polling operation answers) = None then [SetTimeout 5000] else [])"
proof (induction operation answers rule: polling.induct)
  case (1 operation answers)
  show ?case
  proof (cases "opDone operation")
    case True
    then show ?thesis by (simp add: polling_cases statusChecks_def)
  next
    case False
    show ?thesis
    proof (cases answers)
      case Nil
      with False show ?thesis by (simp add: polling_cases statusChecks_def)
    next
      case (Cons a rest)
      show ?thesis
      proof (cases a)
        case (Inl e)
        with False Cons show ?thesis by (simp add: polling_cases statusChecks_def)
      next
        case (Inr operation')
        with False Cons "1.IH" [of a rest operation'] show ?thesis
          by (simp add: polling_cases statusChecks_def)
      qed
    qed
  qed
qed

lemma polling_exit:
  "snd (polling operation answers) = Some r \<Longrightarrow>
   (\<exists>operation'. r = Inr operation' \<and> opDone operation' \<and>
       (operation' = operation \<or> Inr operation' \<in> set answers)) \<or>
   (\<exists>e. r = Inl e \<and> Inl e \<in> set answers)"
proof (induction operation answers rule: polling.induct)
  case (1 operation answers)
  show ?case
  proof (cases "opDone operation")
    case True
    with "1.prems" show ?thesis by (auto simp: polling_cases)
  next
    case False
    show ?thesis
    proof (cases answers)
      case Nil
      with False "1.prems" show ?thesis by (simp add: polling_cases)
    next
      case (Cons a rest)
      show ?thesis
      proof (cases a)
        case (Inl e)
        with False Cons "1.prems" show ?thesis by (auto simp: polling_cases)
      next
        case (Inr operation')
        with False Cons "1.prems" "1.IH" [of a rest operation'] show ?thesis
          by (auto simp: polling_cases)
      qed
    qed
  qed
qed

lemma polling_no_timeout:
  "\<not> opDone operation \<Longrightarrow>
   \<forall>a\<in>set answers. \<exists>operation'. a = Inr operation' \<and> \<not> opDone operation' \<Longrightarrow>
   snd (polling operation answers) = None \<and>
   statusChecks (fst (polling operation answers)) = length answers"
proof (induction answers arbitrary: operation)
  case Nil
  then show ?case by (simp add: polling_cases statusChecks_def)
next
  case (Cons a rest)
  then obtain operation' where a: "a = Inr operation'" "\<not> opDone operation'" by auto
  with Cons.IH [of operation'] Cons.prems show ?case
    by (simp add: polling_cases statusChecks_def)
qed

text \<open>
  C4. The effects of the polling loop are a timer of 5000 ms followed by one status check,
  over and over, always with the same delay (and one more timer of 5000 ms while the loop
  is still waiting). The loop is left only with an operation that reports done (the first
  one or one of the answers) or because a status check threw. However many answers say
  "not done", the loop has checked every one of them and is still running.
\<close>

theorem polling_every_five_seconds:
  "fst (polling operation answers) =
     concat (replicate (statusChecks (fst (polling operation answers)))
               [SetTimeout 5000, GetVideosOperation]) @
     (if snd (polling operation answers) = None then [SetTimeout 5000] else []) \<and>
   (\<forall>r. snd (polling operation answers) = Some r \<longrightarrow>
      (\<exists>operation'. r = Inr operation' \<and> opDone operation' \<and>
          (operation' = operation \<or> Inr operation' \<in> set answers)) \<or>
      (\<exists>e. r = Inl e \<and> Inl e \<in> set answers)) \<and>
   (\<not> opDone operation \<and>
    (\<forall>a\<in>set answers. \<exists>operation'. a = Inr operation' \<and> \<not> opDone operation') \<longrightarrow>
      snd (polling operation answers) = None \<and>
      statusChecks (fst (polling operation answers)) = length answers)"
  using polling_trace [of operation answers] polling_exit [of operation answers]
    polling_no_timeout [of operation answers]
  by blast

theorem polling_every_five_seconds_witness:
  "polling examplePending [Inr examplePending, Inr examplePending, Inr examplePending] =
     ([SetTimeout 5000, GetVideosOperation, SetTimeout 5000, GetVideosOperation,
       SetTimeout 5000, GetVideosOperation, SetTimeout 5000], None) \<and>
   polling examplePending [Inr examplePending, Inr exampleDone] =
     ([SetTimeout 5000, GetVideosOperation, SetTimeout 5000, GetVideosOperation],
      Some (Inr exampleDone)) \<and>
   opDone exampleDone"
proof -
  let ?three = "[Inr examplePending, Inr examplePending, Inr examplePending] ::
    (error + Operation) list"
  have pending: "\<not> opDone examplePending \<and>
      (\<forall>a\<in>set ?three. \<exists>operation'. a = Inr operation' \<and> \<not> opDone operation')"
    by (simp add: examplePending_def)
  note t = polling_every_five_seconds [of examplePending ?three]
  from t have f: "fst (polling examplePending ?three) =
           concat (replicate (statusChecks (fst (polling examplePending ?three)))
                     [SetTimeout 5000, GetVideosOperation]) @
           (if snd (polling examplePending ?three) = None then [SetTimeout 5000] else [])"
    by (rule conjunct1)
  from t have "\<not> opDone examplePending \<and>
    (\<forall>a\<in>set ?three. \<exists>operation'. a = Inr operation' \<and> \<not> opDone operation') \<longrightarrow>
      snd (polling examplePending ?three) = None \<and>
      statusChecks (fst (polling examplePending ?three)) = length ?three"
    by (elim conjE)
  with pending have "snd (polling examplePending ?three) = None \<and>
      statusChecks (fst (polling examplePending ?three)) = length ?three"
    by (rule rev_mp)
  then have s: "snd (polling examplePending ?three) = None"
    and n: "statusChecks (fst (polling examplePending ?three)) = 3"
    by simp_all
  have "fst (polling examplePending ?three) =
     [SetTimeout 5000, GetVideosOperation, SetTimeout 5000, GetVideosOperation,
      SetTimeout 5000, GetVideosOperation, SetTimeout 5000]"
    by (subst f) (simp add: n s numeral_3_eq_3)
  with s have first: "polling examplePending ?three =
     ([SetTimeout 5000, GetVideosOperation, SetTimeout 5000, GetVideosOperation,
       SetTimeout 5000, GetVideosOperation, SetTimeout 5000], None)"
    by (simp add: prod_eq_iff)
  have second: "polling examplePending [Inr examplePending, Inr exampleDone] =
     ([SetTimeout 5000, GetVideosOperation, SetTimeout 5000, GetVideosOperation],
      Some (Inr exampleDone))"
    by (simp add: polling_cases examplePending_def exampleDone_def)
  let ?two = "[Inr examplePending, Inr exampleDone] :: (error + Operation) list"
  from polling_every_five_seconds [of examplePending ?two]
  have "\<forall>r. snd (polling examplePending ?two) = Some r \<longrightarrow>
      (\<exists>operation'. r = Inr operation' \<and> opDone operation' \<and>
          (operation' = examplePending \<or> Inr operation' \<in> set ?two)) \<or>
      (\<exists>e. r = Inl e \<and> Inl e \<in> set ?two)"
    by (elim conjE)
  moreover from second have "snd (polling examplePending ?two) = Some (Inr exampleDone)"
    by simp
  ultimately have "(\<exists>operation'. Inr exampleDone = (Inr operation' :: error + Operation) \<and>
          opDone operation' \<and>
          (operation' = examplePending \<or> Inr operation' \<in> set ?two)) \<or>
      (\<exists>e. (Inr exampleDone :: error + Operation) = Inl e \<and> Inl e \<in> set ?two)"
    by blast
  then have "opDone exampleDone" by blast
  with first second show ?thesis by simp
qed

subsection \<open>generateVideo\<close>

lemma resume_isVideoLoading:
  "generateVideo_resume env scriptText w = Some w' \<Longrightarrow> isVideoLoading (ui w') = False"
  by (auto simp: generateVideo_resume_def ui_setters split: option.splits sum.splits)

lemma resume_threw:
  assumes "snd (videoTry env scriptText) = Some (Inl err)"
  shows "generateVideo_resume env scriptText w =
         Some (setIsVideoLoading False (emit [ConsoleError ''Video generation failed''] w))"
  using assms by (simp add: generateVideo_resume_def)


lemma resume_url:
  assumes "snd (videoTry env scriptText) = Some (Inr (Some videoObjectUrl))"
  shows "generateVideo_resume env scriptText w =
         Some (setIsVideoLoading False (setVideoUrl (Some videoObjectUrl) w))"
  using assms by (simp add: generateVideo_resume_def)

lemma resume_no_uri:
  assumes "snd (videoTry env scriptText) = Some (Inr None)"
  shows "generateVideo_resume env scriptText w = Some (setIsVideoLoading False w)"
  using assms by (simp add: generateVideo_resume_def)

lemma resume_waiting:
  "generateVideo_resume env scriptText w = None \<longleftrightarrow> snd (videoTry env scriptText) = None"
  by (auto simp: generateVideo_resume_def split: option.splits sum.splits)

lemma example_ok:
  "exampleParse (orEmptyObject (Some ''ok'')) = Inr exampleData"
  "Parsed.analysis exampleData = Some exampleAnalysis"
  "casting exampleAnalysis = Some exampleCasting"
  "Parsed.shots exampleData = Some exampleShots"
  by (simp_all add: orEmptyObject_def exampleParse_def exampleData_def exampleAnalysis_def)

lemmas exampleResults_eqs =
  resume_ok [of exampleParse "Some ''ok''" exampleData exampleAnalysis exampleCasting
    exampleShots DEFAULT_SCRIPT initial, OF example_ok, folded exampleResults_def]

lemma exampleResults_facts:
  "view (ui exampleResults) = Results" "videoUrl (ui exampleResults) = None"
  "analysis (ui exampleResults) \<noteq> None" "effects exampleResults = []"
  "length (shots (ui exampleResults)) = 2"
  by (simp_all add: exampleResults_eqs initial_def exampleShots_def markLoading_def)

text \<open>
  C9. Whenever \<open>generateVideo\<close> comes back, whichever way (a URL was stored, the finished
  operation had no video URI, or a call threw), \<open>isVideoLoading\<close> is false afterwards.
\<close>

theorem video_loading_flag_cleared:
  "generateVideo env scriptText w = Some w' \<Longrightarrow> isVideoLoading (ui w') = False"
  unfolding generateVideo_def by (rule resume_isVideoLoading)

theorem video_loading_flag_cleared_witness:
  "(\<exists>w'. generateVideo exampleVideoEnv DEFAULT_SCRIPT exampleResults = Some w' \<and>
         videoUrl (ui w') = Some ''blob:1'' \<and> isVideoLoading (ui w') = False) \<and>
   (\<exists>w'. generateVideo (exampleVideoEnv\<lparr>generateVideos := Inr (exampleDone\<lparr>videoUri := None\<rparr>)\<rparr>)
            DEFAULT_SCRIPT exampleResults = Some w' \<and>
         videoUrl (ui w') = None \<and> isVideoLoading (ui w') = False) \<and>
   (\<exists>w'. generateVideo (exampleVideoEnv\<lparr>generateVideos := Inl RemoteError\<rparr>)
            DEFAULT_SCRIPT exampleResults = Some w' \<and>
         videoUrl (ui w') = None \<and> isVideoLoading (ui w') = False)"
proof (intro conjI)
  have "snd (videoTry exampleVideoEnv DEFAULT_SCRIPT) = Some (Inr (Some ''blob:1''))"
    by (simp add: videoTry_def exampleVideoEnv_def polling_cases examplePending_def
        exampleDone_def)
  from resume_url [OF this, of "setIsVideoLoading True exampleResults"]
  obtain w' where g: "generateVideo exampleVideoEnv DEFAULT_SCRIPT exampleResults = Some w'"
    and u: "videoUrl (ui w') = Some ''blob:1''"
    by (simp add: generateVideo_def ui_setters)
  from video_loading_flag_cleared [OF g] g u
  show "\<exists>w'. generateVideo exampleVideoEnv DEFAULT_SCRIPT exampleResults = Some w' \<and>
         videoUrl (ui w') = Some ''blob:1'' \<and> isVideoLoading (ui w') = False"
    by blast
next
  let ?env = "exampleVideoEnv\<lparr>generateVideos := Inr (exampleDone\<lparr>videoUri := None\<rparr>)\<rparr>"
  have "snd (videoTry ?env DEFAULT_SCRIPT) = Some (Inr None)"
    by (simp add: videoTry_def exampleVideoEnv_def polling_cases exampleDone_def)
  from resume_no_uri [OF this, of "setIsVideoLoading True exampleResults"]
  obtain w' where g: "generateVideo ?env DEFAULT_SCRIPT exampleResults = Some w'"
    and u: "videoUrl (ui w') = None"
    by (simp add: generateVideo_def ui_setters exampleResults_facts)
  from video_loading_flag_cleared [OF g] g u
  show "\<exists>w'. generateVideo ?env DEFAULT_SCRIPT exampleResults = Some w' \<and>
         videoUrl (ui w') = None \<and> isVideoLoading (ui w') = False"
    by blast
next
  let ?env = "exampleVideoEnv\<lparr>generateVideos := Inl RemoteError\<rparr>"
  have "snd (videoTry ?env DEFAULT_SCRIPT) = Some (Inl RemoteError)"
    by (simp add: videoTry_def exampleVideoEnv_def)
  from resume_threw [OF this, of "setIsVideoLoading True exampleResults"]
  obtain w' where g: "generateVideo ?env DEFAULT_SCRIPT exampleResults = Some w'"
    and u: "videoUrl (ui w') = None"
    by (simp add: generateVideo_def ui_setters exampleResults_facts)
  from video_loading_flag_cleared [OF g] g u
  show "\<exists>w'. generateVideo ?env DEFAULT_SCRIPT exampleResults = Some w' \<and>
         videoUrl (ui w') = None \<and> isVideoLoading (ui w') = False"
    by blast
qed

lemma resume_videoUrl:
  "videoUrl (ui (processScript_resume P settled scriptText w)) = videoUrl (ui w)"
  by (simp add: processScript_resume_def Let_def ui_setters ui_catch ui_forEach ui_video_begin
      split: option.split sum.split)

lemma videoTry_result_any_script:
  "snd (videoTry env scriptText) = snd (videoTry env scriptText')"
  by (simp add: videoTry_def Let_def split: option.split sum.split prod.split)

lemma step_keeps_videoUrl:
  assumes "step P ev w = Some w'" and "\<not> storesVideo ev"
  shows "videoUrl (ui w') = videoUrl (ui w)"
proof (cases ev)
  case Analizar
  with assms show ?thesis
    by (auto simp: step_simps processScript_begin_def Let_def ui_setters split: if_splits)
next
  case AnalizarOtro
  with assms show ?thesis by (auto simp: step_simps ui_setters split: if_splits)
next
  case (Edit t)
  with assms show ?thesis by (auto simp: step_simps ui_setters split: if_splits)
next
  case (TextSettled settled)
  with assms show ?thesis by (auto simp: step_simps resume_videoUrl split: list.splits)
next
  case (ImageSettled k settled)
  with assms show ?thesis by (auto simp: step_simps image_resume_ui split: if_splits)
next
  case (VideoSettled k env)
  with assms(1) have r: "generateVideo_resume env (videoCalls w ! k)
      (w\<lparr>videoCalls := without k (videoCalls w)\<rparr>) = Some w'"
    by (simp add: step_simps split: if_splits)
  from assms(2) VideoSettled
  have "\<And>u. snd (videoTry env (videoCalls w ! k)) \<noteq> Some (Inr (Some u))"
    using videoTry_result_any_script [of env "videoCalls w ! k" "[]"]
    by (auto split: option.splits sum.splits)
  with r show ?thesis
    by (auto simp: generateVideo_resume_def ui_setters split: option.splits sum.splits)
qed

lemma run_keeps_videoUrl:
  "run P evs w = Some w' \<Longrightarrow> \<forall>ev\<in>set evs. \<not> storesVideo ev \<Longrightarrow>
   videoUrl (ui w') = videoUrl (ui w)"
proof (induction evs arbitrary: w)
  case Nil
  then show ?case by simp
next
  case (Cons ev evs)
  from Cons.prems(1) obtain w1 where s: "step P ev w = Some w1" and r: "run P evs w1 = Some w'"
    by (auto split: option.splits)
  from Cons.IH [OF r] Cons.prems(2) step_keeps_videoUrl [OF s] show ?case by simp
qed

lemma videoSlot_None: "videoUrl s = None \<Longrightarrow>
  videoSlot s = SpinnerPlaceholder (if isVideoLoading s then ''Generando video con Veo...''
                                     else ''Esperando inicio...'')"
  by (simp add: videoSlot_def)

text \<open>
  Two runs of \<open>generateVideo\<close> across a restart: the second run's call throws, the console
  gets the message and the slot shows the spinner; then the first run, still polling,
  finishes and stores its URL, and the slot of the second run's results shows that video.
\<close>

theorem failed_run_later_shows_video:
  "map_option shownVideo
     (run exampleParse (exampleRestart @ [VideoSettled 1 failingVideoEnv]) initial) =
     Some (SpinnerPlaceholder ''Esperando inicio...'') \<and>
   map_option effects
     (run exampleParse (exampleRestart @ [VideoSettled 1 failingVideoEnv]) initial) =
     Some [ConsoleError ''Video generation failed''] \<and>
   map_option shownVideo
     (run exampleParse
        (exampleRestart @ [VideoSettled 1 failingVideoEnv, VideoSettled 0 exampleVideoEnv])
        initial) =
     Some (VideoElement ''blob:1'')"
  by code_simp

text \<open>
  C1 (amended). When a call inside \<open>generateVideo\<close> throws, the function comes back, the
  console message is the only thing written (no alert), and the component is as before
  except that \<open>isVideoLoading\<close> is false; in particular \<open>videoUrl\<close> is what it was. Where
  \<open>videoUrl\<close> was null, the video slot shows the spinner placeholder with the waiting
  caption, and it goes on showing the placeholder through everything that happens next,
  until some run of \<open>generateVideo\<close> settles with a video.
\<close>

theorem video_failure_console_only:
  assumes "snd (videoTry env scriptText) = Some (Inl err)"
  shows "\<exists>w'. generateVideo env scriptText w = Some w' \<and>
           effects w' = effects w @ [ConsoleError ''Video generation failed''] \<and>
           ui w' = (ui w)\<lparr>isVideoLoading := False\<rparr> \<and>
           (videoUrl (ui w) = None \<longrightarrow>
              videoSlot (ui w') = SpinnerPlaceholder ''Esperando inicio...'' \<and>
              (\<forall>evs w''. (\<forall>ev\<in>set evs. \<not> storesVideo ev) \<and> run JSON_parse evs w' = Some w'' \<longrightarrow>
                 videoUrl (ui w'') = None \<and>
                 (\<exists>caption. videoSlot (ui w'') = SpinnerPlaceholder caption)))"
proof -
  let ?w' = "setIsVideoLoading False
               (emit [ConsoleError ''Video generation failed''] (setIsVideoLoading True w))"
  have g: "generateVideo env scriptText w = Some ?w'"
    unfolding generateVideo_def by (rule resume_threw [OF assms])
  have e: "effects ?w' = effects w @ [ConsoleError ''Video generation failed'']"
    by (simp add: calls_setters)
  have u: "ui ?w' = (ui w)\<lparr>isVideoLoading := False\<rparr>"
    by (simp add: ui_setters)
  have p: "videoUrl (ui w'') = None \<and> (\<exists>caption. videoSlot (ui w'') = SpinnerPlaceholder caption)"
    if "videoUrl (ui w) = None" "\<forall>ev\<in>set evs. \<not> storesVideo ev"
      "run JSON_parse evs ?w' = Some w''" for evs w''
    using run_keeps_videoUrl [OF that(3) that(2)] that(1) u by (simp add: videoSlot_None)
  have v: "videoSlot (ui ?w') = SpinnerPlaceholder ''Esperando inicio...''"
    if "videoUrl (ui w) = None"
    using that u by (simp add: videoSlot_None)
  show ?thesis
  proof (intro exI [of _ ?w'] conjI impI allI)
    show "generateVideo env scriptText w = Some ?w'" by (rule g)
    show "effects ?w' = effects w @ [ConsoleError ''Video generation failed'']" by (rule e)
    show "ui ?w' = (ui w)\<lparr>isVideoLoading := False\<rparr>" by (rule u)
    show "videoSlot (ui ?w') = SpinnerPlaceholder ''Esperando inicio...''"
      if "videoUrl (ui w) = None" using that by (rule v)
    show "videoUrl (ui w'') = None"
      if "videoUrl (ui w) = None"
        "(\<forall>ev\<in>set evs. \<not> storesVideo ev) \<and> run JSON_parse evs ?w' = Some w''" for evs w''
      using p [of evs w''] that by simp
    show "\<exists>caption. videoSlot (ui w'') = SpinnerPlaceholder caption"
      if "videoUrl (ui w) = None"
        "(\<forall>ev\<in>set evs. \<not> storesVideo ev) \<and> run JSON_parse evs ?w' = Some w''" for evs w''
      using p [of evs w''] that by simp
  qed
qed

theorem video_failure_console_only_witness:
  "snd (videoTry (exampleVideoEnv\<lparr>fetchObjectUrl := Inl RemoteError\<rparr>) DEFAULT_SCRIPT) =
     Some (Inl RemoteError) \<and>
   videoUrl (ui exampleResults) = None \<and>
   (\<exists>w'. generateVideo (exampleVideoEnv\<lparr>fetchObjectUrl := Inl RemoteError\<rparr>) DEFAULT_SCRIPT
            exampleResults = Some w' \<and>
         effects w' = [ConsoleError ''Video generation failed''] \<and>
         view (ui w') = Results \<and>
         videoSlot (ui w') = SpinnerPlaceholder ''Esperando inicio...'' \<and>
         (\<exists>w''. run exampleParse [AnalizarOtro] w' = Some w'' \<and> videoUrl (ui w'') = None))"
proof -
  let ?env = "exampleVideoEnv\<lparr>fetchObjectUrl := Inl RemoteError\<rparr>"
  have threw: "snd (videoTry ?env DEFAULT_SCRIPT) = Some (Inl RemoteError)"
    by (simp add: videoTry_def exampleVideoEnv_def polling_cases examplePending_def
        exampleDone_def)
  from video_failure_console_only [OF threw, of exampleResults exampleParse]
  obtain w' where g: "generateVideo ?env DEFAULT_SCRIPT exampleResults = Some w'"
    and e: "effects w' = [ConsoleError ''Video generation failed'']"
    and u: "ui w' = (ui exampleResults)\<lparr>isVideoLoading := False\<rparr>"
    and v: "videoSlot (ui w') = SpinnerPlaceholder ''Esperando inicio...''"
    and p: "\<And>evs w''. (\<forall>ev\<in>set evs. \<not> storesVideo ev) \<and> run exampleParse evs w' = Some w''
              \<Longrightarrow> videoUrl (ui w'') = None"
    by (auto simp: exampleResults_facts)
  have r: "run exampleParse [AnalizarOtro] w' = Some (setView Input w')"
    by (simp add: step_simps u exampleResults_facts)
  from p [of "[AnalizarOtro]" "setView Input w'"] r
  have "videoUrl (ui (setView Input w')) = None" by simp
  with threw g e u v r show ?thesis by (auto simp: exampleResults_facts)
qed

subsection \<open>Image requests\<close>

lemma length_markLoading: "length (markLoading i xs) = length xs"
  by (simp add: markLoading_def)

lemma length_fold_markLoading:
  "length (fold (\<lambda>(index, shot). markLoading index) ys xs) = length xs"
  by (induction ys arbitrary: xs) (auto simp: length_markLoading)

lemma length_updaters:
  "length (storeImage i u xs) = length xs" "length (clearLoading i xs) = length xs"
  by (simp_all add: storeImage_def clearLoading_def)

lemma nth_updaters:
  "j \<noteq> i \<Longrightarrow> storeImage i u xs ! j = xs ! j" "j \<noteq> i \<Longrightarrow> clearLoading i xs ! j = xs ! j"
  by (simp_all add: storeImage_def clearLoading_def)

lemma callIndex_issued: "map callIndex (issuedCalls shs) = [0..<length shs]"
  by (rule nth_equalityI) (simp_all add: issuedCalls_def nth_enumerate_eq)

lemma exampleResults_shots:
  "shots (ui exampleResults) =
     [(exampleShots ! 0)\<lparr>isLoadingImage := Some True\<rparr>,
      (exampleShots ! 1)\<lparr>isLoadingImage := Some True\<rparr>]"
  by (simp add: exampleResults_eqs exampleShots_def markLoading_def)

lemma exampleResults_calls:
  "imageCalls exampleResults =
     [\<lparr>callIndex = 0, prompt = imagePrompt (exampleShots ! 0)\<rparr>,
      \<lparr>callIndex = 1, prompt = imagePrompt (exampleShots ! 1)\<rparr>]"
  by (simp add: exampleResults_eqs initial_def issuedCalls_def exampleShots_def)

text \<open>
  C8. When the analysis has arrived with all its parts, the image requests sent are
  exactly one per shot, the request for position \<open>i\<close> carrying index \<open>i\<close>. When an image
  request settles, with an image or with an error, the shots array keeps its length, every
  shot at another position than the request's index is as before, and so are the analysis,
  \<open>videoUrl\<close>, the view and the rest of the component; the text and video calls in flight
  are untouched and the settled request is the only one to leave the image calls.
\<close>

theorem one_call_per_shot_own_slot:
  "(JSON_parse (orEmptyObject responseText) = Inr d \<and> Parsed.analysis d = Some a \<and> casting a = Some cs \<and>
    Parsed.shots d = Some shs \<longrightarrow>
      length (shots (ui (processScript_resume JSON_parse (Inr responseText) scriptText w))) = length shs \<and>
      imageCalls (processScript_resume JSON_parse (Inr responseText) scriptText w) =
        imageCalls w @ issuedCalls shs \<and>
      map callIndex (issuedCalls shs) = [0..<length shs]) \<and>
   (step JSON_parse (ImageSettled k settled) w = Some w' \<longrightarrow>
      length (shots (ui w')) = length (shots (ui w)) \<and>
      (\<forall>j. j \<noteq> callIndex (imageCalls w ! k) \<longrightarrow> shots (ui w') ! j = shots (ui w) ! j) \<and>
      analysis (ui w') = analysis (ui w) \<and> videoUrl (ui w') = videoUrl (ui w) \<and>
      view (ui w') = view (ui w) \<and> script (ui w') = script (ui w) \<and>
      isVideoLoading (ui w') = isVideoLoading (ui w) \<and>
      processingStep (ui w') = processingStep (ui w) \<and>
      textCalls w' = textCalls w \<and> videoCalls w' = videoCalls w \<and>
      imageCalls w' = without k (imageCalls w))"
proof (intro conjI impI)
  assume h: "JSON_parse (orEmptyObject responseText) = Inr d \<and> Parsed.analysis d = Some a \<and>
    casting a = Some cs \<and> Parsed.shots d = Some shs"
  then show "length (shots (ui (processScript_resume JSON_parse (Inr responseText) scriptText w))) = length shs"
    by (simp add: resume_ok(1) [of JSON_parse responseText d a cs shs] length_fold_markLoading)
  from h show "imageCalls (processScript_resume JSON_parse (Inr responseText) scriptText w) =
        imageCalls w @ issuedCalls shs"
    by (simp add: resume_ok(2) [of JSON_parse responseText d a cs shs])
  show "map callIndex (issuedCalls shs) = [0..<length shs]"
    by (rule callIndex_issued)
next
  assume s: "step JSON_parse (ImageSettled k settled) w = Some w'"
  then have w': "w' = generateShotImage_resume settled (callIndex (imageCalls w ! k))
                       (w\<lparr>imageCalls := without k (imageCalls w)\<rparr>)"
    by (simp add: step_simps split: if_splits)
  show "length (shots (ui w')) = length (shots (ui w))"
    by (simp add: w' image_resume_ui length_updaters split: sum.split)
  show "\<forall>j. j \<noteq> callIndex (imageCalls w ! k) \<longrightarrow> shots (ui w') ! j = shots (ui w) ! j"
    by (simp add: w' image_resume_ui nth_updaters split: sum.split)
  show "analysis (ui w') = analysis (ui w)" "videoUrl (ui w') = videoUrl (ui w)"
    "view (ui w') = view (ui w)" "script (ui w') = script (ui w)"
    "isVideoLoading (ui w') = isVideoLoading (ui w)"
    "processingStep (ui w') = processingStep (ui w)"
    "textCalls w' = textCalls w" "videoCalls w' = videoCalls w"
    "imageCalls w' = without k (imageCalls w)"
    by (simp_all add: w' image_resume_ui calls_image_resume)
qed

theorem one_call_per_shot_own_slot_witness:
  "length (shots (ui exampleResults)) = 2 \<and>
   map callIndex (imageCalls exampleResults) = [0, 1] \<and>
   (\<exists>w'. step exampleParse (ImageSettled 1 (Inr exampleImage)) exampleResults = Some w' \<and>
         shots (ui w') ! 0 = shots (ui exampleResults) ! 0 \<and>
         length (shots (ui w')) = 2 \<and>
         view (ui w') = Results \<and> videoUrl (ui w') = None \<and>
         map callIndex (imageCalls w') = [0])"
proof -
  let ?w' = "generateShotImage_resume (Inr exampleImage) 1
               (exampleResults\<lparr>imageCalls := without 1 (imageCalls exampleResults)\<rparr>)"
  have s: "step exampleParse (ImageSettled 1 (Inr exampleImage)) exampleResults = Some ?w'"
    by (simp add: step_simps exampleResults_calls)
  note sent = one_call_per_shot_own_slot [where JSON_parse = exampleParse and responseText = "Some ''ok''"
      and d = exampleData and a = exampleAnalysis and cs = exampleCasting and shs = exampleShots
      and scriptText = DEFAULT_SCRIPT and w = initial and k = 0 and settled = "Inr exampleImage"
      and w' = initial, THEN conjunct1]
  note settle = one_call_per_shot_own_slot [where JSON_parse = exampleParse and w = exampleResults
      and k = 1 and settled = "Inr exampleImage" and w' = ?w' and responseText = None
      and d = exampleData and a = exampleAnalysis and cs = exampleCasting and shs = exampleShots
      and scriptText = DEFAULT_SCRIPT, THEN conjunct2]
  from sent example_ok have "length (shots (ui exampleResults)) = length exampleShots \<and>
      imageCalls exampleResults = imageCalls initial @ issuedCalls exampleShots \<and>
      map callIndex (issuedCalls exampleShots) = [0..<length exampleShots]"
    unfolding exampleResults_def by blast
  then have "length (shots (ui exampleResults)) = 2"
    and "map callIndex (imageCalls exampleResults) = [0, 1]"
    by (simp_all add: initial_def exampleShots_def upt_rec)
  moreover from settle s have "shots (ui ?w') ! 0 = shots (ui exampleResults) ! 0"
    and "length (shots (ui ?w')) = 2" and "view (ui ?w') = Results"
    and "videoUrl (ui ?w') = None" and "map callIndex (imageCalls ?w') = [0]"
    by (simp_all add: exampleResults_calls exampleResults_facts without_def)
  ultimately show ?thesis using s by simp
qed

text \<open>
  C6. When the image request for a shot throws, the error goes to the console, the shot's
  \<open>isLoadingImage\<close> becomes false and its \<open>imageUrl\<close> is left as it was, so a shot that
  was loading ends without an image; the settled request leaves the calls in flight and
  no other request is added.
\<close>

theorem image_failure_clears_flag:
  assumes "k < length (imageCalls w)" and "index = callIndex (imageCalls w ! k)"
    and "index < length (shots (ui w))"
  shows "\<exists>w'. step JSON_parse (ImageSettled k (Inl err)) w = Some w' \<and>
           isLoadingImage (shots (ui w') ! index) = Some False \<and>
           imageUrl (shots (ui w') ! index) = imageUrl (shots (ui w) ! index) \<and>
           (loading (shots (ui w) ! index) \<longrightarrow> failed (shots (ui w') ! index)) \<and>
           imageCalls w' = without k (imageCalls w) \<and>
           length (imageCalls w') < length (imageCalls w) \<and>
           effects w' = effects w @ [ConsoleError ''Image gen error'']"
  using assms
  by (simp add: step_simps image_resume_ui calls_image_resume clearLoading_def loading_def
      failed_def without_def)

theorem image_failure_clears_flag_witness:
  "(1::nat) < length (imageCalls exampleResults) \<and>
   callIndex (imageCalls exampleResults ! 1) = 1 \<and>
   (1::nat) < length (shots (ui exampleResults)) \<and>
   loading (shots (ui exampleResults) ! 1) \<and>
   (\<exists>w'. step exampleParse (ImageSettled 1 (Inl RemoteError)) exampleResults = Some w' \<and>
         failed (shots (ui w') ! 1) \<and>
         map callIndex (imageCalls w') = [0] \<and>
         effects w' = [ConsoleError ''Image gen error''])"
proof -
  have pre: "(1::nat) < length (imageCalls exampleResults)"
    "1 = callIndex (imageCalls exampleResults ! 1)"
    "(1::nat) < length (shots (ui exampleResults))"
    "loading (shots (ui exampleResults) ! 1)"
    by (simp_all add: exampleResults_calls exampleResults_shots loading_def exampleShots_def)
  from image_failure_clears_flag [OF pre(1-3), of exampleParse RemoteError] pre(4)
  obtain w' where "step exampleParse (ImageSettled 1 (Inl RemoteError)) exampleResults = Some w'"
    and "failed (shots (ui w') ! 1)"
    and "imageCalls w' = without 1 (imageCalls exampleResults)"
    and "effects w' = effects exampleResults @ [ConsoleError ''Image gen error'']"
    by blast
  then show ?thesis
    using pre by (auto simp: exampleResults_calls exampleResults_facts without_def)
qed


subsection \<open>The states of a shot\<close>














subsection \<open>Requests left in flight across a restart\<close>

lemma resume_shots_fresh:
  assumes "JSON_parse (orEmptyObject responseText) = Inr d" and "Parsed.analysis d = Some a"
    and "casting a = Some cs"
  shows "shots (ui (processScript_resume JSON_parse (Inr responseText) scriptText w)) =
         fold (\<lambda>(index, shot). markLoading index) (enumerate 0 (orEmptyArray (Parsed.shots d)))
              (orEmptyArray (Parsed.shots d))"
  using assms
  by (simp add: processScript_resume_def Let_def ui_setters ui_catch ui_forEach ui_video_begin
      orEmptyArray_def split: option.split)

text \<open>
  A request of the first run settling after the second run has installed its shots: the
  image made for the first script becomes the image of the second script's first shot.
\<close>

theorem stale_image_lands_in_new_run:
  "map_option imageUrls (run exampleParse exampleRestart initial) = Some [None] \<and>
   map_option imageUrls
     (run exampleParse (exampleRestart @ [ImageSettled 0 (Inr exampleImage)]) initial) =
     Some [Some ''data:image/png;base64,AAAA'']"
  by code_simp

text \<open>
  C2 (amended). The completion of an image request left in flight across a restart is
  applied to the shots array that is current when it arrives. If it arrives before the
  next analysis is installed, the shots after that analysis are the same as without it.
  If it arrives afterwards and the array has no entry at the request's index, the shots are
  unchanged; if the array has an entry there, that entry gets the request's image (on
  success) and its loading flag cleared, and every other entry stays as it was.
\<close>

theorem stale_completion_effect:
  "(JSON_parse (orEmptyObject responseText) = Inr d \<and> Parsed.analysis d = Some a \<and>
    casting a = Some cs \<longrightarrow>
      shots (ui (processScript_resume JSON_parse (Inr responseText) scriptText
                   (generateShotImage_resume settled index w))) =
      shots (ui (processScript_resume JSON_parse (Inr responseText) scriptText w))) \<and>
   (length (shots (ui w)) \<le> index \<longrightarrow>
      shots (ui (generateShotImage_resume settled index w)) = shots (ui w)) \<and>
   (index < length (shots (ui w)) \<longrightarrow>
      shots (ui (generateShotImage_resume settled index w)) =
        (shots (ui w))
          [index := (case settled of
                       Inr response \<Rightarrow>
                         (shots (ui w) ! index)\<lparr>imageUrl := Some (extractImageUrl response),
                                                  isLoadingImage := Some False\<rparr>
                     | Inl err \<Rightarrow> (shots (ui w) ! index)\<lparr>isLoadingImage := Some False\<rparr>)])"
proof (intro conjI impI)
  assume "JSON_parse (orEmptyObject responseText) = Inr d \<and> Parsed.analysis d = Some a \<and>
    casting a = Some cs"
  then show "shots (ui (processScript_resume JSON_parse (Inr responseText) scriptText
                   (generateShotImage_resume settled index w))) =
      shots (ui (processScript_resume JSON_parse (Inr responseText) scriptText w))"
    by (simp add: resume_shots_fresh [of JSON_parse responseText d a cs])
next
  assume "length (shots (ui w)) \<le> index"
  then show "shots (ui (generateShotImage_resume settled index w)) = shots (ui w)"
    by (simp add: image_resume_ui storeImage_def clearLoading_def split: sum.split)
next
  assume "index < length (shots (ui w))"
  then show "shots (ui (generateShotImage_resume settled index w)) =
        (shots (ui w))
          [index := (case settled of
                       Inr response \<Rightarrow>
                         (shots (ui w) ! index)\<lparr>imageUrl := Some (extractImageUrl response),
                                                  isLoadingImage := Some False\<rparr>
                     | Inl err \<Rightarrow> (shots (ui w) ! index)\<lparr>isLoadingImage := Some False\<rparr>)]"
    by (simp add: image_resume_ui storeImage_def clearLoading_def split: sum.split)
qed

theorem stale_completion_effect_witness:
  "shots (ui (processScript_resume exampleParse (Inr (Some ''park'')) ''park''
                (generateShotImage_resume (Inr exampleImage) 0 exampleResults))) =
   shots (ui (processScript_resume exampleParse (Inr (Some ''park'')) ''park'' exampleResults)) \<and>
   shots (ui (generateShotImage_resume (Inr exampleImage) 2 exampleResults)) =
     shots (ui exampleResults) \<and>
   imageUrls (generateShotImage_resume (Inr exampleImage) 0 exampleResults) =
     [Some ''data:image/png;base64,AAAA'', None]"
proof -
  note t = stale_completion_effect [of exampleParse "Some ''park''"
      "\<lparr>Parsed.analysis = Some exampleAnalysis, Parsed.shots = Some parkShots\<rparr>"
      exampleAnalysis exampleCasting "''park''" "Inr exampleImage" _ exampleResults]
  have "exampleParse (orEmptyObject (Some ''park'')) =
          Inr \<lparr>Parsed.analysis = Some exampleAnalysis, Parsed.shots = Some parkShots\<rparr>"
    by (simp add: orEmptyObject_def exampleParse_def)
  with t [of 0] have a: "shots (ui (processScript_resume exampleParse (Inr (Some ''park'')) ''park''
                (generateShotImage_resume (Inr exampleImage) 0 exampleResults))) =
     shots (ui (processScript_resume exampleParse (Inr (Some ''park'')) ''park'' exampleResults))"
    by (simp add: exampleAnalysis_def)
  from t [of 2] have b: "shots (ui (generateShotImage_resume (Inr exampleImage) 2 exampleResults)) =
     shots (ui exampleResults)"
    by (simp add: exampleResults_facts)
  from t [of 0] have "shots (ui (generateShotImage_resume (Inr exampleImage) 0 exampleResults)) =
     (shots (ui exampleResults))
       [0 := (shots (ui exampleResults) ! 0)\<lparr>imageUrl := Some (extractImageUrl exampleImage),
                                               isLoadingImage := Some False\<rparr>]"
    by (simp add: exampleResults_facts)
  then have c: "imageUrls (generateShotImage_resume (Inr exampleImage) 0 exampleResults) =
     [Some ''data:image/png;base64,AAAA'', None]"
    by (simp add: imageUrls_def exampleResults_shots exampleShots_def extractImageUrl_def
        exampleImage_def)
  from a b c show ?thesis by simp
qed

end
